theory Spec2Isabelle
  imports Complex_Main
begin

section \<open>katpool-payment: the startup and scheduling script \<open>src/index.ts\<close>\<close>

text \<open>
  The script is a sequence of top-level statements. It reads the process environment and
  \<open>config.json\<close>, calls four collaborators (\<open>rpc.connect()\<close>, \<open>rpc.getServerInfo()\<close>,
  \<open>new trxManager(...)\<close>, \<open>transferBalances()\<close>), writes log lines and registers two timers.
  The model makes all of this explicit:
  \<^item> the inputs and the outcomes of the collaborator calls are fields of a record \<open>world\<close>;
  \<^item> the two mutable module variables are a record \<open>state\<close>, passed along;
  \<^item> every \<open>throw\<close> is an \<open>Inl\<close> of a result \<open>error + state\<close>;
  \<^item> every observable action (a log line, a collaborator call, a timer registration) is an
    \<open>event\<close>, and each function returns the list of events it produced, in order.
  JavaScript numbers are modelled by exact rationals; \<open>config.json\<close> cannot hold NaN or an
  infinity, and the only division of the script has a divisor that is never zero.
\<close>

subsection \<open>Data\<close>

text \<open>A template literal is kept as its parts: text, an interpolated number, an interpolated
  thrown value.\<close>

datatype part = S string | N rat | E string

datatype event =
    Log "part list"
  | Debug "part list"
  | ErrorLog "part list"
  | DotenvConfig
  | NewRpcClient
  | Connect
  | GetServerInfo
  | NewTrxManager
  | CronSchedule "part list"
  | SetInterval nat
  | TransferBalances

text \<open>\<open>Error m\<close> is \<open>new Error(m)\<close> thrown by the script itself; \<open>Thrown v\<close> is a value thrown
  by a collaborator that the script does not catch.\<close>

datatype error = Error string | Thrown string

text \<open>\<open>config.json\<close>: a key that is missing (or \<open>null\<close>) is \<open>None\<close>.\<close>

record config =
  config_network :: "string option"
  config_payoutsPerDay :: "rat option"
  config_node :: string

record serverInfo =
  isSynced :: bool
  hasUtxoIndex :: bool

text \<open>
  The environment variables are those of \<open>process.env\<close> (\<open>DEBUG\<close> as read on line 18,
  before \<open>dotenv.config()\<close>; the others after it). An outcome \<open>None\<close> of a collaborator call
  means that it returned, \<open>Some v\<close> that it threw \<open>v\<close>.
\<close>

record world =
  env_DEBUG :: "string option"
  env_TREASURY_PRIVATE_KEY :: "string option"
  env_PUSHGATEWAY :: "string option"
  env_DATABASE_URL :: "string option"
  config :: config
  connectOutcome :: "string option"
  getServerInfoOutcome :: "string + serverInfo"
  trxManagerOutcome :: "string option"
  cronScheduleOutcome :: "string option"

text \<open>The transaction manager is opaque; the handle records what it was constructed with.\<close>

record trxManager =
  tm_network :: string
  tm_privateKey :: string
  tm_databaseUrl :: string

record state =
  transactionManager :: "trxManager option"
  rpcConnected :: bool

text \<open>The string constants of the script, once the checks of lines 28 to 49 have narrowed them.\<close>

record constants =
  network :: string
  treasuryPrivateKey :: string
  katpoolPshGw :: string
  databaseUrl :: string

subsection \<open>Lines 17 to 57: debug flag, required inputs, payment interval\<close>

definition DEBUG :: "world \<Rightarrow> bool" where
  "DEBUG w = (env_DEBUG w = Some ''1'')"

text \<open>\<open>if (DEBUG) monitoring.debug(m)\<close>\<close>

definition debug :: "world \<Rightarrow> part list \<Rightarrow> event list" where
  "debug w m = (if DEBUG w then [Debug m] else [])"

text \<open>\<open>!v\<close> for a value that is a string or undefined: true when undefined or empty.\<close>

definition falsy :: "string option \<Rightarrow> bool" where
  "falsy v = (case v of None \<Rightarrow> True | Some s \<Rightarrow> s = [])"

text \<open>\<open>if (!v) { throw new Error(m); }\<close>, returning the narrowed string otherwise.\<close>

definition required :: "string option \<Rightarrow> string \<Rightarrow> error + string" where
  "required v m = (case v of None \<Rightarrow> Inl (Error m)
                   | Some s \<Rightarrow> if s = [] then Inl (Error m) else Inr s)"

text \<open>\<open>config.payoutsPerDay || 2\<close>: the default is taken when the key is missing and also
  when it is \<open>0\<close>, the one falsy number.\<close>

definition payoutsPerDay :: "config \<Rightarrow> rat" where
  "payoutsPerDay c = (case config_payoutsPerDay c of None \<Rightarrow> 2
                      | Some p \<Rightarrow> if p = 0 then 2 else p)"

definition paymentInterval :: "config \<Rightarrow> rat" where
  "paymentInterval c = 24 / payoutsPerDay c"

definition environmentChecks :: "world \<Rightarrow> event list \<times> (error + constants)" where
  "environmentChecks w =
    (let t0 = [Log [S ''Main: Starting katpool Payment App''], DotenvConfig] in
     case required (env_TREASURY_PRIVATE_KEY w)
            ''Environment variable TREASURY_PRIVATE_KEY is not set.'' of
       Inl e \<Rightarrow> (t0, Inl e)
     | Inr key \<Rightarrow>
     let t1 = t0 @ debug w [S ''Main: Obtained treasury private key''] in
     case required (config_network (config w)) ''No network has been set in config.json'' of
       Inl e \<Rightarrow> (t1, Inl e)
     | Inr net \<Rightarrow>
     let t2 = t1 @ debug w [S ''Main: Network Id: '', S net] in
     case required (env_PUSHGATEWAY w) ''Environment variable PUSHGATEWAY is not set.'' of
       Inl e \<Rightarrow> (t2, Inl e)
     | Inr gw \<Rightarrow>
     let t3 = t2 @ debug w [S ''Main: PushGateway URL obtained''] in
     case required (env_DATABASE_URL w) ''Environment variable DATABASE_URL is not set.'' of
       Inl e \<Rightarrow> (t3, Inl e)
     | Inr db \<Rightarrow>
     let t4 = t3 @ debug w [S ''Main: Database URL obtained''] in
     if paymentInterval (config w) < 1 \<or> paymentInterval (config w) > 24
     then (t4, Inl (Error ''paymentInterval must be between 1 and 24 hours.''))
     else (t4 @ debug w [S ''Main: Payment interval set to '',
                         N (paymentInterval (config w)), S '' hours''],
           Inr \<lparr>network = net, treasuryPrivateKey = key, katpoolPshGw = gw,
                databaseUrl = db\<rparr>))"

subsection \<open>Lines 60 to 100: connection, readiness, transaction manager\<close>

definition setupTransactionManager ::
    "world \<Rightarrow> constants \<Rightarrow> state \<Rightarrow> event list \<times> (error + state)" where
  "setupTransactionManager w c s =
    (let t = debug w [S ''Main: Starting transaction manager''] @ [NewTrxManager] in
     case trxManagerOutcome w of
       Some e \<Rightarrow> (t, Inl (Thrown e))
     | None \<Rightarrow> (t, Inr (s\<lparr>transactionManager :=
                 Some \<lparr>tm_network = network c, tm_privateKey = treasuryPrivateKey c,
                       tm_databaseUrl = databaseUrl c\<rparr>\<rparr>)))"

definition startRpcConnection :: "world \<Rightarrow> state \<Rightarrow> event list \<times> (error + state)" where
  "startRpcConnection w s =
    (let t = debug w [S ''Main: Starting RPC connection''] @ [Connect] in
     case connectOutcome w of
       Some rpcError \<Rightarrow> (t, Inl (Error ''RPC connection error''))
     | None \<Rightarrow>
      (case getServerInfoOutcome w of
         Inl e \<Rightarrow> (t @ [GetServerInfo], Inl (Thrown e))
       | Inr info \<Rightarrow>
           if \<not> isSynced info \<or> \<not> hasUtxoIndex info
           then (t @ [GetServerInfo],
                 Inl (Error ''Provided node is either not synchronized or lacks the UTXO index.''))
           else (t @ [GetServerInfo], Inr (s\<lparr>rpcConnected := True\<rparr>))))"

subsection \<open>Lines 103 to 130: the two timers\<close>

text \<open>The cron expression \<open>`0 */${paymentInterval} * * *`\<close>.\<close>

definition cronExpression :: "rat \<Rightarrow> part list" where
  "cronExpression interval = [S ''0 */'', N interval, S '' * * *'']"

text \<open>Registration of the scheduler (which may reject the expression), of the heartbeat
  timer, and the last log line.\<close>

definition registerTimers :: "world \<Rightarrow> state \<Rightarrow> event list \<times> (error + state)" where
  "registerTimers w s =
    (let t = [CronSchedule (cronExpression (paymentInterval (config w)))] in
     case cronScheduleOutcome w of
       Some e \<Rightarrow> (t, Inl (Thrown e))
     | None \<Rightarrow>
        (t @ [SetInterval (10 * 60 * 1000),
              Log [S ''Main: Scheduled balance transfer every '',
                   N (paymentInterval (config w)), S '' hours'']],
         Inr s))"

subsection \<open>The whole script\<close>

definition main :: "world \<Rightarrow> event list \<times> (error + state)" where
  "main w =
    (case environmentChecks w of
       (t0, Inl e) \<Rightarrow> (t0, Inl e)
     | (t0, Inr c) \<Rightarrow>
       let t1 = t0 @ debug w [S ''Main: Setting up RPC client'']
                   @ debug w [S ''Main: Resolver Options:'', S (config_node (config w))]
                   @ [NewRpcClient];
           s0 = \<lparr>transactionManager = None, rpcConnected = False\<rparr>
       in
       if \<not> rpcConnected s0 then
         (case startRpcConnection w s0 of
            (t2, Inl e) \<Rightarrow> (t1 @ t2, Inl e)
          | (t2, Inr s1) \<Rightarrow>
            let t3 = t1 @ t2 @ debug w [S ''Main: RPC connection started'']
                        @ debug w [S ''Main: RPC connection established'']
            in
            (case setupTransactionManager w c s1 of
               (t4, Inl e) \<Rightarrow> (t3 @ t4, Inl e)
             | (t4, Inr s2) \<Rightarrow>
                (case registerTimers w s2 of (t5, r) \<Rightarrow> (t3 @ t4 @ t5, r))))
       else
         (case registerTimers w s0 of (t5, r) \<Rightarrow> (t1 @ t5, r)))"

text \<open>An exception that leaves the top level of the module ends the process with status 1;
  otherwise the two timers keep the process alive and it has no exit status.\<close>

definition exitStatus :: "error + state \<Rightarrow> nat option" where
  "exitStatus r = (case r of Inl e \<Rightarrow> Some 1 | Inr s \<Rightarrow> None)"

text \<open>The callback given to \<open>cron.schedule\<close>, run at one firing; the second argument is the
  outcome of \<open>transferBalances()\<close> at that firing. On a null \<open>transactionManager\<close> the call
  expression throws a TypeError inside the \<open>try\<close> block without calling anything.\<close>

definition scheduledCallback :: "state \<Rightarrow> string option \<Rightarrow> event list \<times> (error + state)" where
  "scheduledCallback s transferOutcome =
    (if rpcConnected s then
       (let t = [Log [S ''Main: Running scheduled balance transfer'']] in
        case transactionManager s of
          None \<Rightarrow>
            (t @ [ErrorLog [S ''Main: Transaction manager error: '', E ''TypeError'']], Inr s)
        | Some tm \<Rightarrow>
           (case transferOutcome of
              None \<Rightarrow> (t @ [TransferBalances], Inr s)
            | Some transactionError \<Rightarrow>
                (t @ [TransferBalances,
                      ErrorLog [S ''Main: Transaction manager error: '', E transactionError]],
                 Inr s)))
     else
       ([ErrorLog [S ''Main: RPC connection is not established before balance transfer'']],
        Inr s))"

text \<open>A sequence of firings, one outcome of \<open>transferBalances()\<close> per firing; an error that
  left a callback would end the sequence.\<close>

fun firings :: "state \<Rightarrow> string option list \<Rightarrow> event list list \<times> (error + state)" where
  "firings s [] = ([], Inr s)"
| "firings s (r # rs) =
     (case scheduledCallback s r of
        (t, Inl e) \<Rightarrow> ([t], Inl e)
      | (t, Inr s') \<Rightarrow> (case firings s' rs of (ts, res) \<Rightarrow> (t # ts, res)))"

text \<open>The states in which a firing can happen: the one the script ends in, with its timers
  registered, and those that firings lead to.\<close>

inductive reachable :: "world \<Rightarrow> state \<Rightarrow> bool" for w :: world where
  started: "main w = (t, Inr s) \<Longrightarrow> reachable w s"
| fired: "reachable w s \<Longrightarrow> scheduledCallback s r = (t, Inr s') \<Longrightarrow> reachable w s'"

text \<open>The JavaScript remainder \<open>a % b\<close> of finite numbers with \<open>b\<close> not zero: the quotient is
  truncated towards zero.\<close>

definition jsRemainder :: "rat \<Rightarrow> rat \<Rightarrow> rat" where
  "jsRemainder a b =
     a - b * of_int (if 0 \<le> a / b then \<lfloor>a / b\<rfloor> else \<lceil>a / b\<rceil>)"

text \<open>Lines 119 to 125, from the interval and the clock's \<open>getHours()\<close> and \<open>getMinutes()\<close>.
  The interval has passed the range check of line 54, so it is not zero.\<close>

definition remainingTime :: "rat \<Rightarrow> nat \<Rightarrow> nat \<Rightarrow> rat" where
  "remainingTime interval hours minutes =
    (let nextTransferHours = interval - jsRemainder (of_nat hours) interval;
         remainingMinutes = nextTransferHours * 60 - of_nat minutes
     in if remainingMinutes = nextTransferHours * 60 then 0 else remainingMinutes)"

definition heartbeat :: "world \<Rightarrow> nat \<Rightarrow> nat \<Rightarrow> event list" where
  "heartbeat w hours minutes =
     debug w [S ''Main: '', N (remainingTime (paymentInterval (config w)) hours minutes),
              S '' minutes until the next balance transfer'']"

subsection \<open>The schedule that the cron expression denotes\<close>

text \<open>
  Modelled from the spec: the scheduling library behind \<open>cron.schedule\<close> is a dependency
  that is not among the sources. The spec calls the scheduler "a cron-style fixed wall-clock
  schedule" that "fires at the top of every hour that is an exact multiple of
  PaymentInterval". The model below is that reading of a five-field cron expression
  (minute, hour, day of month, month, day of week): a field is \<open>*\<close> (any value), a number
  (that value) or \<open>*/n\<close> (the values divisible by \<open>n\<close>); the expression fires at a
  wall-clock minute when all five fields match. The spec is silent on a step that is not
  a whole number, such as \<open>*/4.8\<close>; there the model follows the library, which does not
  take a text with a decimal point for a step and leaves the field with the range of \<open>*\<close>.
  What comes from the source is the text of the expression, \<open>cronExpression\<close>, rendered as
  the template literal renders it.
\<close>

record clock =
  minute :: nat
  hour :: nat
  dayOfMonth :: nat
  month :: nat
  dayOfWeek :: nat

datatype cronField = Any | Every nat | Exactly nat

text \<open>The decimal digits of a natural number, as a template literal prints a non-negative
  whole number.\<close>

fun digits :: "nat \<Rightarrow> string" where
  "digits n = (if n < 10 then [''0123456789'' ! n]
               else digits (n div 10) @ [''0123456789'' ! (n mod 10)])"

declare digits.simps [simp del]

text \<open>The decimal places of a number between 0 and 1, when there are at most as many as
  the first argument.\<close>

fun fractionDigits :: "nat \<Rightarrow> rat \<Rightarrow> string option" where
  "fractionDigits 0 r = (if r = 0 then Some [] else None)"
| "fractionDigits (Suc k) r =
     (if r = 0 then Some []
      else map_option (\<lambda>ds. (''0123456789'' ! nat \<lfloor>10 * r\<rfloor>) # ds)
             (fractionDigits k (10 * r - of_int \<lfloor>10 * r\<rfloor>)))"

text \<open>
  The text of a number in a template literal. A whole number from 0 to below \<open>10^21\<close> is
  printed by its digits. A number with a fractional part is printed from its double as the
  shortest decimal that reads back as that double; for a number from \<open>10^-6\<close> to below 100
  with at most 13 decimal places (at most 15 significant digits) this is its own decimal
  expansion, as \<open>4.8\<close> for 24/5. All other numbers are outside the model: no text.
\<close>

definition showNumber :: "rat \<Rightarrow> string option" where
  "showNumber q =
     (if q < 0 \<or> 1000000000000000000000 \<le> q then None
      else if of_int \<lfloor>q\<rfloor> = q then Some (digits (nat \<lfloor>q\<rfloor>))
      else if q < 1 / 1000000 \<or> 100 \<le> q then None
      else map_option (\<lambda>ds. digits (nat \<lfloor>q\<rfloor>) @ ''.'' @ ds)
             (fractionDigits 13 (q - of_int \<lfloor>q\<rfloor>)))"

fun render :: "part list \<Rightarrow> string option" where
  "render [] = Some []"
| "render (S s # ps) = map_option (\<lambda>r. s @ r) (render ps)"
| "render (N q # ps) =
     (case showNumber q of None \<Rightarrow> None | Some s \<Rightarrow> map_option (\<lambda>r. s @ r) (render ps))"
| "render (E s # ps) = map_option (\<lambda>r. s @ r) (render ps)"

definition digitValue :: "char \<Rightarrow> nat option" where
  "digitValue c = map_of [(CHR ''0'', 0), (CHR ''1'', 1), (CHR ''2'', 2), (CHR ''3'', 3),
     (CHR ''4'', 4), (CHR ''5'', 5), (CHR ''6'', 6), (CHR ''7'', 7), (CHR ''8'', 8),
     (CHR ''9'', 9)] c"

fun parseDigits :: "nat \<Rightarrow> string \<Rightarrow> nat option" where
  "parseDigits acc [] = Some acc"
| "parseDigits acc (c # cs) =
     (case digitValue c of None \<Rightarrow> None | Some d \<Rightarrow> parseDigits (10 * acc + d) cs)"

definition parseNat :: "string \<Rightarrow> nat option" where
  "parseNat s = (if s = [] then None else parseDigits 0 s)"

text \<open>The fields of an expression are separated by single spaces.\<close>

fun splitFields :: "string \<Rightarrow> string list" where
  "splitFields [] = [[]]"
| "splitFields (c # cs) =
     (if c = CHR '' '' then [] # splitFields cs
      else (case splitFields cs of f # fs \<Rightarrow> (c # f) # fs | [] \<Rightarrow> [[c]]))"

text \<open>A field. After \<open>*/\<close>, digits are a step (not 0); a text with a decimal point is
  not a step, and the field is that of \<open>*\<close>; any other text is not read.\<close>

fun parseField :: "string \<Rightarrow> cronField option" where
  "parseField s =
     (if s = ''*'' then Some Any
      else if take 2 s = ''*/'' then
        (case parseNat (drop 2 s) of
           None \<Rightarrow> if CHR ''.'' \<in> set (drop 2 s) then Some Any else None
         | Some n \<Rightarrow> if n = 0 then None else Some (Every n))
      else map_option Exactly (parseNat s))"

fun fieldMatches :: "cronField \<Rightarrow> nat \<Rightarrow> bool" where
  "fieldMatches Any v = True"
| "fieldMatches (Every n) v = (v mod n = 0)"
| "fieldMatches (Exactly k) v = (v = k)"

text \<open>Whether the expression fires at a wall-clock minute; \<open>None\<close> when the expression is
  not one the model reads.\<close>

definition cronFires :: "part list \<Rightarrow> clock \<Rightarrow> bool option" where
  "cronFires expression c =
    (case render expression of
       None \<Rightarrow> None
     | Some s \<Rightarrow>
        (case map parseField (splitFields s) of
           [Some mi, Some ho, Some dm, Some mo, Some dw] \<Rightarrow>
             Some (fieldMatches mi (minute c) \<and> fieldMatches ho (hour c)
                   \<and> fieldMatches dm (dayOfMonth c) \<and> fieldMatches mo (month c)
                   \<and> fieldMatches dw (dayOfWeek c))
         | _ \<Rightarrow> None))"

subsection \<open>Concrete worlds\<close>

text \<open>A world in which every input is present and every collaborator succeeds, and the
  state in which the script leaves it.\<close>

definition goodWorld :: world where
  "goodWorld =
    \<lparr>env_DEBUG = None,
     env_TREASURY_PRIVATE_KEY = Some ''k'',
     env_PUSHGATEWAY = Some ''http://gw'',
     env_DATABASE_URL = Some ''postgres://db'',
     config = \<lparr>config_network = Some ''mainnet'', config_payoutsPerDay = Some 2,
               config_node = ''n''\<rparr>,
     connectOutcome = None,
     getServerInfoOutcome = Inr \<lparr>isSynced = True, hasUtxoIndex = True\<rparr>,
     trxManagerOutcome = None,
     cronScheduleOutcome = None\<rparr>"

definition goodState :: state where
  "goodState =
    \<lparr>transactionManager =
       Some \<lparr>tm_network = ''mainnet'', tm_privateKey = ''k'',
             tm_databaseUrl = ''postgres://db''\<rparr>,
     rpcConnected = True\<rparr>"

definition goodConstants :: constants where
  "goodConstants =
    \<lparr>network = ''mainnet'', treasuryPrivateKey = ''k'', katpoolPshGw = ''http://gw'',
     databaseUrl = ''postgres://db''\<rparr>"

text \<open>The state before the connection is started.\<close>

definition initialState :: state where
  "initialState = \<lparr>transactionManager = None, rpcConnected = False\<rparr>"

text \<open>Variations of the good world: debug output on; a configured number of payouts per
  day; a node that is not synchronized; a node without the UTXO index; a connection that
  fails.\<close>

definition debugWorld :: world where
  "debugWorld = goodWorld\<lparr>env_DEBUG := Some ''1''\<rparr>"

definition payoutsWorld :: "rat option \<Rightarrow> world" where
  "payoutsWorld p = goodWorld\<lparr>config := (config goodWorld)\<lparr>config_payoutsPerDay := p\<rparr>\<rparr>"

definition unsyncedWorld :: world where
  "unsyncedWorld =
     goodWorld\<lparr>getServerInfoOutcome := Inr \<lparr>isSynced = False, hasUtxoIndex = True\<rparr>\<rparr>"

definition noIndexWorld :: world where
  "noIndexWorld =
     goodWorld\<lparr>getServerInfoOutcome := Inr \<lparr>isSynced = True, hasUtxoIndex = False\<rparr>\<rparr>"

definition refusedWorld :: world where
  "refusedWorld = goodWorld\<lparr>connectOutcome := Some ''ECONNREFUSED''\<rparr>"

section \<open>Properties\<close>

subsection \<open>The script on the concrete worlds\<close>

lemmas script_defs = main_def startRpcConnection_def setupTransactionManager_def
  registerTimers_def debug_def

lemmas run_defs = script_defs environmentChecks_def required_def DEBUG_def
  paymentInterval_def payoutsPerDay_def cronExpression_def goodWorld_def goodState_def

lemma main_goodWorld:
  "main goodWorld =
     ([Log [S ''Main: Starting katpool Payment App''], DotenvConfig, NewRpcClient, Connect,
       GetServerInfo, NewTrxManager, CronSchedule [S ''0 */'', N 12, S '' * * *''],
       SetInterval 600000,
       Log [S ''Main: Scheduled balance transfer every '', N 12, S '' hours'']],
      Inr goodState)"
  by (simp add: run_defs)

lemma environmentChecks_goodWorld:
  "environmentChecks goodWorld =
     ([Log [S ''Main: Starting katpool Payment App''], DotenvConfig], Inr goodConstants)"
  by (simp add: run_defs goodConstants_def)

lemma reachable_goodState: "reachable goodWorld goodState"
  using main_goodWorld by (rule reachable.started)

subsection \<open>The structure of a run\<close>

lemma required_falsy: "falsy v \<Longrightarrow> required v m = Inl (Error m)"
  by (auto simp: falsy_def required_def split: option.splits)

lemma required_present: "\<not> falsy v \<Longrightarrow> required v m = Inr (the v)"
  by (auto simp: falsy_def required_def split: option.splits)

text \<open>The checks of lines 28 to 57 only write log lines.\<close>

lemma environmentChecks_quiet:
  "e \<in> set (fst (environmentChecks w)) \<Longrightarrow>
     (\<exists>m. e = Log m \<or> e = Debug m) \<or> e = DotenvConfig"
  by (auto simp: environmentChecks_def required_def debug_def Let_def
      split: option.splits sum.splits if_splits)

lemma environmentChecks_Log:
  "Log m \<in> set (fst (environmentChecks w)) \<Longrightarrow> m = [S ''Main: Starting katpool Payment App'']"
  by (auto simp: environmentChecks_def required_def debug_def Let_def
      split: option.splits sum.splits if_splits)

lemma main_failed_checks:
  "snd (environmentChecks w) = Inl e \<Longrightarrow> main w = (fst (environmentChecks w), Inl e)"
  by (cases "environmentChecks w") (simp add: main_def)

lemma main_quiet_on_failed_checks:
  assumes "snd (environmentChecks w) = Inl e"
  shows "snd (main w) = Inl e \<and> NewRpcClient \<notin> set (fst (main w))
    \<and> Connect \<notin> set (fst (main w)) \<and> (\<forall>x. CronSchedule x \<notin> set (fst (main w)))"
  using main_failed_checks[OF assms] environmentChecks_quiet[of _ w] by auto

text \<open>A run that ends without an error has connected, has seen a ready node, and leaves
  both module variables set.\<close>

lemma main_Inr:
  assumes "main w = (t, Inr s)"
  shows "rpcConnected s \<and> transactionManager s \<noteq> None \<and> connectOutcome w = None
    \<and> (\<exists>info. getServerInfoOutcome w = Inr info \<and> isSynced info \<and> hasUtxoIndex info)"
  using assms
  by (cases "environmentChecks w")
     (auto simp: script_defs Let_def split: option.splits sum.splits if_splits)

lemma scheduledCallback_state: "scheduledCallback s r = (t, Inr s') \<Longrightarrow> s' = s"
  by (auto simp: scheduledCallback_def Let_def split: option.splits if_splits)

lemma reachable_ready: "reachable w s \<Longrightarrow> rpcConnected s \<and> transactionManager s \<noteq> None"
proof (induction rule: reachable.induct)
  case (started t s)
  then show ?case using main_Inr by blast
next
  case (fired s r t s')
  then show ?case using scheduledCallback_state by blast
qed

subsection \<open>Readiness before construction\<close>

text \<open>
  Claim C1. The transaction manager is constructed only if \<open>connect()\<close> succeeded and the
  server-info snapshot has both \<open>isSynced\<close> and \<open>hasUtxoIndex\<close> true. When the script has
  come as far as the snapshot (the checks of lines 28 to 57 passed, \<open>connect()\<close> returned,
  \<open>getServerInfo()\<close> returned) and either flag is false, the script ends with the "node not
  ready" error and the constructor is not called.
\<close>

theorem transaction_manager_only_on_ready_node:
  "(NewTrxManager \<in> set (fst (main w)) \<longrightarrow>
      connectOutcome w = None \<and>
      (\<exists>info. getServerInfoOutcome w = Inr info \<and> isSynced info \<and> hasUtxoIndex info))
   \<and> (\<forall>info. (\<exists>c. snd (environmentChecks w) = Inr c) \<and> connectOutcome w = None \<and>
         getServerInfoOutcome w = Inr info \<and> (\<not> isSynced info \<or> \<not> hasUtxoIndex info) \<longrightarrow>
         snd (main w) =
           Inl (Error ''Provided node is either not synchronized or lacks the UTXO index.'')
         \<and> exitStatus (snd (main w)) = Some 1
         \<and> NewTrxManager \<notin> set (fst (main w)))"
proof (rule conjI; (intro allI)?; rule impI)
  assume a: "NewTrxManager \<in> set (fst (main w))"
  show "connectOutcome w = None \<and>
      (\<exists>info. getServerInfoOutcome w = Inr info \<and> isSynced info \<and> hasUtxoIndex info)"
  proof (cases "environmentChecks w")
    case (Pair t r)
    then show ?thesis using a environmentChecks_quiet[of NewTrxManager w]
      by (cases r) (auto simp: script_defs cronExpression_def Let_def
          split: option.splits sum.splits if_splits)
  qed
next
  fix info
  assume a: "(\<exists>c. snd (environmentChecks w) = Inr c) \<and> connectOutcome w = None \<and>
         getServerInfoOutcome w = Inr info \<and> (\<not> isSynced info \<or> \<not> hasUtxoIndex info)"
  then obtain t c where "environmentChecks w = (t, Inr c)"
    by (cases "environmentChecks w") auto
  with a environmentChecks_quiet[of NewTrxManager w]
  show "snd (main w) =
           Inl (Error ''Provided node is either not synchronized or lacks the UTXO index.'')
         \<and> exitStatus (snd (main w)) = Some 1
         \<and> NewTrxManager \<notin> set (fst (main w))"
    by (auto simp: script_defs exitStatus_def Let_def)
qed

theorem transaction_manager_only_on_ready_node_witness:
  "NewTrxManager \<in> set (fst (main goodWorld))
   \<and> connectOutcome goodWorld = None
   \<and> getServerInfoOutcome goodWorld = Inr \<lparr>isSynced = True, hasUtxoIndex = True\<rparr>
   \<and> snd (environmentChecks unsyncedWorld) = Inr goodConstants
   \<and> connectOutcome unsyncedWorld = None
   \<and> getServerInfoOutcome unsyncedWorld = Inr \<lparr>isSynced = False, hasUtxoIndex = True\<rparr>
   \<and> snd (main unsyncedWorld) =
       Inl (Error ''Provided node is either not synchronized or lacks the UTXO index.'')
   \<and> NewTrxManager \<notin> set (fst (main unsyncedWorld))
   \<and> snd (main noIndexWorld) =
       Inl (Error ''Provided node is either not synchronized or lacks the UTXO index.'')
   \<and> NewTrxManager \<notin> set (fst (main noIndexWorld))"
proof -
  have g: "NewTrxManager \<in> set (fst (main goodWorld))"
    by (simp add: main_goodWorld)
  have u: "snd (environmentChecks unsyncedWorld) = Inr goodConstants
      \<and> connectOutcome unsyncedWorld = None
      \<and> getServerInfoOutcome unsyncedWorld = Inr \<lparr>isSynced = False, hasUtxoIndex = True\<rparr>"
    by (simp add: run_defs unsyncedWorld_def goodConstants_def)
  have n: "snd (environmentChecks noIndexWorld) = Inr goodConstants
      \<and> connectOutcome noIndexWorld = None
      \<and> getServerInfoOutcome noIndexWorld = Inr \<lparr>isSynced = True, hasUtxoIndex = False\<rparr>"
    by (simp add: run_defs noIndexWorld_def goodConstants_def)
  have c: "connectOutcome goodWorld = None
      \<and> getServerInfoOutcome goodWorld = Inr \<lparr>isSynced = True, hasUtxoIndex = True\<rparr>"
    by (simp add: goodWorld_def)
  from g u n c transaction_manager_only_on_ready_node[of goodWorld]
    transaction_manager_only_on_ready_node[of unsyncedWorld]
    transaction_manager_only_on_ready_node[of noIndexWorld]
  show ?thesis by auto
qed

subsection \<open>Scheduled firings\<close>

lemma scheduledCallback_ready:
  assumes "rpcConnected s" "transactionManager s \<noteq> None"
  shows "scheduledCallback s r =
     (Log [S ''Main: Running scheduled balance transfer''] # TransferBalances #
        (case r of None \<Rightarrow> []
         | Some e \<Rightarrow> [ErrorLog [S ''Main: Transaction manager error: '', E e]]),
      Inr s)"
  using assms by (auto simp: scheduledCallback_def split: option.splits)

lemma scheduledCallback_not_ready:
  assumes "\<not> rpcConnected s"
  shows "scheduledCallback s r =
     ([ErrorLog [S ''Main: RPC connection is not established before balance transfer'']],
      Inr s)"
  using assms by (simp add: scheduledCallback_def)

text \<open>Any number of firings, whatever the outcomes of the transfers: each firing makes one
  call, and the sequence runs to its end in the same state.\<close>

lemma firings_ready:
  assumes "rpcConnected s" "transactionManager s \<noteq> None"
  shows "\<exists>ts. firings s rs = (ts, Inr s) \<and> length ts = length rs
           \<and> (\<forall>t \<in> set ts. count_list t TransferBalances = 1)"
proof (induction rs)
  case Nil
  show ?case by simp
next
  case (Cons r rs)
  then obtain ts where ts: "firings s rs = (ts, Inr s)" "length ts = length rs"
    "\<forall>t \<in> set ts. count_list t TransferBalances = 1" by blast
  have "count_list (fst (scheduledCallback s r)) TransferBalances = 1"
    by (simp add: scheduledCallback_ready[OF assms] split: option.splits)
  with ts show ?case
    by (simp add: scheduledCallback_ready[OF assms])
qed

text \<open>
  Claim C2. At every firing of the scheduler (a firing happens in a state that the
  script's run and earlier firings have led to): if \<open>rpcConnected\<close> is true,
  \<open>transferBalances()\<close> is called exactly once, an error it raises is logged, the callback
  returns without an error and leaves the state as it was, and so does every sequence of
  further firings, each with exactly one call; if \<open>rpcConnected\<close> is false,
  \<open>transferBalances()\<close> is not called and the only effect is the error line that the
  connection is not established.
\<close>

theorem scheduled_firing_gated_and_contained:
  "(reachable w s \<and> rpcConnected s \<longrightarrow>
      count_list (fst (scheduledCallback s r)) TransferBalances = 1
      \<and> snd (scheduledCallback s r) = Inr s
      \<and> (\<forall>e. r = Some e \<longrightarrow>
            ErrorLog [S ''Main: Transaction manager error: '', E e]
              \<in> set (fst (scheduledCallback s r)))
      \<and> (\<exists>ts. firings s rs = (ts, Inr s) \<and> length ts = length rs
            \<and> (\<forall>t \<in> set ts. count_list t TransferBalances = 1)))
   \<and> (\<not> rpcConnected s \<longrightarrow>
        scheduledCallback s r =
          ([ErrorLog [S ''Main: RPC connection is not established before balance transfer'']],
           Inr s)
        \<and> TransferBalances \<notin> set (fst (scheduledCallback s r)))"
proof (rule conjI; rule impI)
  assume "reachable w s \<and> rpcConnected s"
  then have rdy: "rpcConnected s" "transactionManager s \<noteq> None"
    using reachable_ready by blast+
  show "count_list (fst (scheduledCallback s r)) TransferBalances = 1
      \<and> snd (scheduledCallback s r) = Inr s
      \<and> (\<forall>e. r = Some e \<longrightarrow>
            ErrorLog [S ''Main: Transaction manager error: '', E e]
              \<in> set (fst (scheduledCallback s r)))
      \<and> (\<exists>ts. firings s rs = (ts, Inr s) \<and> length ts = length rs
            \<and> (\<forall>t \<in> set ts. count_list t TransferBalances = 1))"
    using firings_ready[OF rdy, of rs]
    by (simp add: scheduledCallback_ready[OF rdy] split: option.splits)
next
  assume "\<not> rpcConnected s"
  then show "scheduledCallback s r =
          ([ErrorLog [S ''Main: RPC connection is not established before balance transfer'']],
           Inr s)
        \<and> TransferBalances \<notin> set (fst (scheduledCallback s r))"
    by (simp add: scheduledCallback_not_ready)
qed

theorem scheduled_firing_gated_and_contained_witness:
  "reachable goodWorld goodState \<and> rpcConnected goodState
   \<and> count_list (fst (scheduledCallback goodState (Some ''boom''))) TransferBalances = 1
   \<and> snd (scheduledCallback goodState (Some ''boom'')) = Inr goodState
   \<and> ErrorLog [S ''Main: Transaction manager error: '', E ''boom'']
        \<in> set (fst (scheduledCallback goodState (Some ''boom'')))
   \<and> (\<exists>ts. firings goodState [None, Some ''boom'', None] = (ts, Inr goodState)
          \<and> length ts = 3)
   \<and> \<not> rpcConnected initialState
   \<and> scheduledCallback initialState None =
       ([ErrorLog [S ''Main: RPC connection is not established before balance transfer'']],
        Inr initialState)
   \<and> TransferBalances \<notin> set (fst (scheduledCallback initialState None))"
proof -
  have g: "reachable goodWorld goodState \<and> rpcConnected goodState"
    using reachable_goodState by (simp add: goodState_def)
  have n: "\<not> rpcConnected initialState" by (simp add: initialState_def)
  from g n
    scheduled_firing_gated_and_contained
      [of goodWorld goodState "Some ''boom''" "[None, Some ''boom'', None]"]
    scheduled_firing_gated_and_contained [of goodWorld initialState None "[]"]
  show ?thesis by auto
qed

text \<open>
  Claim C10. Whenever the scheduled callback runs with \<open>rpcConnected\<close> true,
  \<open>transactionManager\<close> is not null: in every state in which a firing can happen, both
  hold. The variable is assigned during the run of the script: in the trace of a run that
  ends without an error, the constructor call comes after the readiness check and
  immediately before the registration of the scheduler, and nowhere else.
\<close>

theorem transaction_manager_set_at_every_firing:
  "(reachable w s \<and> rpcConnected s \<longrightarrow> transactionManager s \<noteq> None)
   \<and> (\<forall>t. main w = (t, Inr s) \<longrightarrow>
        (\<exists>t1 t2 t3. t = t1 @ GetServerInfo # t2 @ NewTrxManager #
                         CronSchedule (cronExpression (paymentInterval (config w))) # t3
                     \<and> NewTrxManager \<notin> set t1 \<and> NewTrxManager \<notin> set t2
                     \<and> (\<forall>x. CronSchedule x \<notin> set t1 \<and> CronSchedule x \<notin> set t2)))"
proof (rule conjI)
  show "reachable w s \<and> rpcConnected s \<longrightarrow> transactionManager s \<noteq> None"
    using reachable_ready by blast
next
  show "\<forall>t. main w = (t, Inr s) \<longrightarrow>
        (\<exists>t1 t2 t3. t = t1 @ GetServerInfo # t2 @ NewTrxManager #
                         CronSchedule (cronExpression (paymentInterval (config w))) # t3
                     \<and> NewTrxManager \<notin> set t1 \<and> NewTrxManager \<notin> set t2
                     \<and> (\<forall>x. CronSchedule x \<notin> set t1 \<and> CronSchedule x \<notin> set t2))"
  proof (intro allI impI)
    fix t assume m: "main w = (t, Inr s)"
    obtain t0 r where ec: "environmentChecks w = (t0, r)" by (cases "environmentChecks w")
    let ?t1 = "t0 @ debug w [S ''Main: Setting up RPC client'']
                   @ debug w [S ''Main: Resolver Options:'', S (config_node (config w))]
                   @ [NewRpcClient] @ debug w [S ''Main: Starting RPC connection''] @ [Connect]"
    let ?t2 = "debug w [S ''Main: RPC connection started'']
                        @ debug w [S ''Main: RPC connection established'']
                        @ debug w [S ''Main: Starting transaction manager'']"
    let ?t3 = "[SetInterval (10 * 60 * 1000),
              Log [S ''Main: Scheduled balance transfer every '',
                   N (paymentInterval (config w)), S '' hours'']]"
    have "t = ?t1 @ GetServerInfo # ?t2 @ NewTrxManager #
                         CronSchedule (cronExpression (paymentInterval (config w))) # ?t3"
      using m ec
      by (cases r) (auto simp: main_def startRpcConnection_def setupTransactionManager_def
          registerTimers_def Let_def split: option.splits sum.splits if_splits)
    moreover have "NewTrxManager \<notin> set ?t1" "NewTrxManager \<notin> set ?t2"
      using environmentChecks_quiet[of NewTrxManager w] ec by (auto simp: debug_def)
    moreover have "\<forall>x. CronSchedule x \<notin> set ?t1 \<and> CronSchedule x \<notin> set ?t2"
      using environmentChecks_quiet[of _ w] ec by (auto simp: debug_def)
    ultimately show "\<exists>t1 t2 t3. t = t1 @ GetServerInfo # t2 @ NewTrxManager #
                         CronSchedule (cronExpression (paymentInterval (config w))) # t3
                     \<and> NewTrxManager \<notin> set t1 \<and> NewTrxManager \<notin> set t2
                     \<and> (\<forall>x. CronSchedule x \<notin> set t1 \<and> CronSchedule x \<notin> set t2)"
      by blast
  qed
qed

theorem transaction_manager_set_at_every_firing_witness:
  "reachable goodWorld goodState \<and> rpcConnected goodState
   \<and> transactionManager goodState \<noteq> None
   \<and> main goodWorld = (fst (main goodWorld), Inr goodState)
   \<and> (\<exists>t1 t2 t3. fst (main goodWorld) = t1 @ GetServerInfo # t2 @ NewTrxManager #
          CronSchedule (cronExpression (paymentInterval (config goodWorld))) # t3)"
proof -
  have g: "reachable goodWorld goodState \<and> rpcConnected goodState"
    using reachable_goodState by (simp add: goodState_def)
  have m: "main goodWorld = (fst (main goodWorld), Inr goodState)"
    by (simp add: main_goodWorld)
  from g m transaction_manager_set_at_every_firing[of goodWorld goodState]
  show ?thesis by blast
qed

subsection \<open>Failures of the startup\<close>

lemma environmentChecks_missing:
  "falsy (env_TREASURY_PRIVATE_KEY w) \<Longrightarrow>
     snd (environmentChecks w) =
       Inl (Error ''Environment variable TREASURY_PRIVATE_KEY is not set.'')"
  "\<not> falsy (env_TREASURY_PRIVATE_KEY w) \<Longrightarrow> falsy (config_network (config w)) \<Longrightarrow>
     snd (environmentChecks w) = Inl (Error ''No network has been set in config.json'')"
  "\<not> falsy (env_TREASURY_PRIVATE_KEY w) \<Longrightarrow> \<not> falsy (config_network (config w)) \<Longrightarrow>
   falsy (env_PUSHGATEWAY w) \<Longrightarrow>
     snd (environmentChecks w) = Inl (Error ''Environment variable PUSHGATEWAY is not set.'')"
  "\<not> falsy (env_TREASURY_PRIVATE_KEY w) \<Longrightarrow> \<not> falsy (config_network (config w)) \<Longrightarrow>
   \<not> falsy (env_PUSHGATEWAY w) \<Longrightarrow> falsy (env_DATABASE_URL w) \<Longrightarrow>
     snd (environmentChecks w) = Inl (Error ''Environment variable DATABASE_URL is not set.'')"
  by (simp_all add: environmentChecks_def Let_def required_falsy required_present)

lemma environmentChecks_range:
  assumes "\<not> falsy (env_TREASURY_PRIVATE_KEY w)" "\<not> falsy (config_network (config w))"
    "\<not> falsy (env_PUSHGATEWAY w)" "\<not> falsy (env_DATABASE_URL w)"
    "paymentInterval (config w) < 1 \<or> 24 < paymentInterval (config w)"
  shows "snd (environmentChecks w) =
    Inl (Error ''paymentInterval must be between 1 and 24 hours.'')"
  using assms by (simp add: environmentChecks_def Let_def required_present)

text \<open>
  Claim C5. Each of the four required inputs (treasury key, network, push gateway address,
  database address) has its own error, which names it; the four messages are different.
  The inputs are checked in this order, and the first one that is absent (undefined or
  empty) ends the script with its error, with exit status 1, before the RPC client is
  created and before any connection attempt.
\<close>

theorem missing_input_fails_before_connection:
  "(falsy (env_TREASURY_PRIVATE_KEY w) \<longrightarrow>
      snd (main w) = Inl (Error ''Environment variable TREASURY_PRIVATE_KEY is not set.''))
   \<and> (\<not> falsy (env_TREASURY_PRIVATE_KEY w) \<and> falsy (config_network (config w)) \<longrightarrow>
      snd (main w) = Inl (Error ''No network has been set in config.json''))
   \<and> (\<not> falsy (env_TREASURY_PRIVATE_KEY w) \<and> \<not> falsy (config_network (config w))
        \<and> falsy (env_PUSHGATEWAY w) \<longrightarrow>
      snd (main w) = Inl (Error ''Environment variable PUSHGATEWAY is not set.''))
   \<and> (\<not> falsy (env_TREASURY_PRIVATE_KEY w) \<and> \<not> falsy (config_network (config w))
        \<and> \<not> falsy (env_PUSHGATEWAY w) \<and> falsy (env_DATABASE_URL w) \<longrightarrow>
      snd (main w) = Inl (Error ''Environment variable DATABASE_URL is not set.''))
   \<and> (falsy (env_TREASURY_PRIVATE_KEY w) \<or> falsy (config_network (config w))
        \<or> falsy (env_PUSHGATEWAY w) \<or> falsy (env_DATABASE_URL w) \<longrightarrow>
      exitStatus (snd (main w)) = Some 1 \<and> NewRpcClient \<notin> set (fst (main w))
      \<and> Connect \<notin> set (fst (main w)))
   \<and> distinct [''Environment variable TREASURY_PRIVATE_KEY is not set.'',
        ''No network has been set in config.json'',
        ''Environment variable PUSHGATEWAY is not set.'',
        ''Environment variable DATABASE_URL is not set.'']"
proof (intro conjI impI)
  assume "falsy (env_TREASURY_PRIVATE_KEY w)"
  then show "snd (main w) = Inl (Error ''Environment variable TREASURY_PRIVATE_KEY is not set.'')"
    using environmentChecks_missing(1) main_quiet_on_failed_checks by blast
next
  assume "\<not> falsy (env_TREASURY_PRIVATE_KEY w) \<and> falsy (config_network (config w))"
  then show "snd (main w) = Inl (Error ''No network has been set in config.json'')"
    using environmentChecks_missing(2) main_quiet_on_failed_checks by blast
next
  assume "\<not> falsy (env_TREASURY_PRIVATE_KEY w) \<and> \<not> falsy (config_network (config w))
        \<and> falsy (env_PUSHGATEWAY w)"
  then show "snd (main w) = Inl (Error ''Environment variable PUSHGATEWAY is not set.'')"
    using environmentChecks_missing(3) main_quiet_on_failed_checks by blast
next
  assume "\<not> falsy (env_TREASURY_PRIVATE_KEY w) \<and> \<not> falsy (config_network (config w))
        \<and> \<not> falsy (env_PUSHGATEWAY w) \<and> falsy (env_DATABASE_URL w)"
  then show "snd (main w) = Inl (Error ''Environment variable DATABASE_URL is not set.'')"
    using environmentChecks_missing(4) main_quiet_on_failed_checks by blast
next
  assume a: "falsy (env_TREASURY_PRIVATE_KEY w) \<or> falsy (config_network (config w))
        \<or> falsy (env_PUSHGATEWAY w) \<or> falsy (env_DATABASE_URL w)"
  then obtain m where m: "snd (environmentChecks w) = Inl (Error m)"
    using environmentChecks_missing[of w] by blast
  from main_quiet_on_failed_checks[OF m]
  show "exitStatus (snd (main w)) = Some 1" by (simp add: exitStatus_def)
  from main_quiet_on_failed_checks[OF m]
  show "NewRpcClient \<notin> set (fst (main w))" by simp
  from main_quiet_on_failed_checks[OF m]
  show "Connect \<notin> set (fst (main w))" by simp
next
  show "distinct [''Environment variable TREASURY_PRIVATE_KEY is not set.'',
        ''No network has been set in config.json'',
        ''Environment variable PUSHGATEWAY is not set.'',
        ''Environment variable DATABASE_URL is not set.'']"
    by simp
qed

theorem missing_input_fails_before_connection_witness:
  "falsy (env_TREASURY_PRIVATE_KEY (goodWorld\<lparr>env_TREASURY_PRIVATE_KEY := None\<rparr>))
   \<and> snd (main (goodWorld\<lparr>env_TREASURY_PRIVATE_KEY := None\<rparr>)) =
       Inl (Error ''Environment variable TREASURY_PRIVATE_KEY is not set.'')
   \<and> Connect \<notin> set (fst (main (goodWorld\<lparr>env_TREASURY_PRIVATE_KEY := None\<rparr>)))
   \<and> snd (main (goodWorld\<lparr>config := (config goodWorld)\<lparr>config_network := Some []\<rparr>\<rparr>)) =
       Inl (Error ''No network has been set in config.json'')
   \<and> snd (main (goodWorld\<lparr>env_PUSHGATEWAY := None\<rparr>)) =
       Inl (Error ''Environment variable PUSHGATEWAY is not set.'')
   \<and> snd (main (goodWorld\<lparr>env_DATABASE_URL := None\<rparr>)) =
       Inl (Error ''Environment variable DATABASE_URL is not set.'')
   \<and> Connect \<notin> set (fst (main (goodWorld\<lparr>env_DATABASE_URL := None\<rparr>)))"
proof -
  have k: "falsy (env_TREASURY_PRIVATE_KEY (goodWorld\<lparr>env_TREASURY_PRIVATE_KEY := None\<rparr>))"
    by (simp add: falsy_def)
  have n: "\<not> falsy (env_TREASURY_PRIVATE_KEY
                 (goodWorld\<lparr>config := (config goodWorld)\<lparr>config_network := Some []\<rparr>\<rparr>))
      \<and> falsy (config_network
                 (config (goodWorld\<lparr>config := (config goodWorld)\<lparr>config_network := Some []\<rparr>\<rparr>)))"
    by (simp add: falsy_def goodWorld_def)
  have p: "\<not> falsy (env_TREASURY_PRIVATE_KEY (goodWorld\<lparr>env_PUSHGATEWAY := None\<rparr>))
      \<and> \<not> falsy (config_network (config (goodWorld\<lparr>env_PUSHGATEWAY := None\<rparr>)))
      \<and> falsy (env_PUSHGATEWAY (goodWorld\<lparr>env_PUSHGATEWAY := None\<rparr>))"
    by (simp add: falsy_def goodWorld_def)
  have d: "\<not> falsy (env_TREASURY_PRIVATE_KEY (goodWorld\<lparr>env_DATABASE_URL := None\<rparr>))
      \<and> \<not> falsy (config_network (config (goodWorld\<lparr>env_DATABASE_URL := None\<rparr>)))
      \<and> \<not> falsy (env_PUSHGATEWAY (goodWorld\<lparr>env_DATABASE_URL := None\<rparr>))
      \<and> falsy (env_DATABASE_URL (goodWorld\<lparr>env_DATABASE_URL := None\<rparr>))"
    by (simp add: falsy_def goodWorld_def)
  from k n p d
    missing_input_fails_before_connection[of "goodWorld\<lparr>env_TREASURY_PRIVATE_KEY := None\<rparr>"]
    missing_input_fails_before_connection
      [of "goodWorld\<lparr>config := (config goodWorld)\<lparr>config_network := Some []\<rparr>\<rparr>"]
    missing_input_fails_before_connection[of "goodWorld\<lparr>env_PUSHGATEWAY := None\<rparr>"]
    missing_input_fails_before_connection[of "goodWorld\<lparr>env_DATABASE_URL := None\<rparr>"]
  show ?thesis by simp
qed

text \<open>
  Claim C7. If \<open>connect()\<close> throws, the script ends with an error and exit status 1, the
  scheduler is never registered, and no log line speaks of a scheduled run (the only log
  line is the one of the start). Whenever \<open>connect()\<close> was called and threw, the error is
  the connection error.
\<close>

theorem connect_failure_is_fatal:
  assumes "connectOutcome w = Some e"
  shows "(\<exists>e'. snd (main w) = Inl e') \<and> exitStatus (snd (main w)) = Some 1
     \<and> (Connect \<in> set (fst (main w)) \<longrightarrow> snd (main w) = Inl (Error ''RPC connection error''))
     \<and> ((\<exists>c. snd (environmentChecks w) = Inr c) \<longrightarrow>
          Connect \<in> set (fst (main w)) \<and> snd (main w) = Inl (Error ''RPC connection error''))
     \<and> (\<forall>x. CronSchedule x \<notin> set (fst (main w)))
     \<and> (\<forall>n. SetInterval n \<notin> set (fst (main w)))
     \<and> TransferBalances \<notin> set (fst (main w))
     \<and> (\<forall>m. Log m \<in> set (fst (main w)) \<longrightarrow> m = [S ''Main: Starting katpool Payment App''])"
proof (cases "environmentChecks w")
  case (Pair t r)
  show ?thesis
  proof (cases r)
    case (Inl a)
    with Pair have m: "main w = (t, Inl a)" by (simp add: main_def)
    with Pair Inl environmentChecks_quiet[of _ w] environmentChecks_Log[of _ w] show ?thesis
      by (auto simp: exitStatus_def)
  next
    case (Inr c)
    with Pair assms environmentChecks_quiet[of _ w] environmentChecks_Log[of _ w] show ?thesis
      by (auto simp: script_defs exitStatus_def Let_def)
  qed
qed

theorem connect_failure_is_fatal_witness:
  "connectOutcome refusedWorld = Some ''ECONNREFUSED''
   \<and> snd (environmentChecks refusedWorld) = Inr goodConstants
   \<and> Connect \<in> set (fst (main refusedWorld))
   \<and> snd (main refusedWorld) = Inl (Error ''RPC connection error'')
   \<and> exitStatus (snd (main refusedWorld)) = Some 1
   \<and> CronSchedule (cronExpression 12) \<notin> set (fst (main refusedWorld))
   \<and> Log [S ''Main: Starting katpool Payment App''] \<in> set (fst (main refusedWorld))"
proof -
  have c: "connectOutcome refusedWorld = Some ''ECONNREFUSED''"
    by (simp add: refusedWorld_def)
  have k: "snd (environmentChecks refusedWorld) = Inr goodConstants"
    by (simp add: run_defs refusedWorld_def goodConstants_def)
  have l: "Log [S ''Main: Starting katpool Payment App''] \<in> set (fst (main refusedWorld))"
    by (simp add: run_defs refusedWorld_def)
  from k l connect_failure_is_fatal[OF c] show ?thesis using c by blast
qed

subsection \<open>The payment interval\<close>

lemma paymentInterval_configured:
  "config_payoutsPerDay c = Some p \<Longrightarrow> p \<noteq> 0 \<Longrightarrow> paymentInterval c = 24 / p"
  by (simp add: paymentInterval_def payoutsPerDay_def)

lemma paymentInterval_default:
  "config_payoutsPerDay c = None \<or> config_payoutsPerDay c = Some 0 \<Longrightarrow> paymentInterval c = 12"
  by (auto simp: paymentInterval_def payoutsPerDay_def)

lemma main_payoutsWorld_in_range:
  assumes "1 \<le> paymentInterval (config (payoutsWorld p))"
    "paymentInterval (config (payoutsWorld p)) \<le> 24"
  shows "snd (environmentChecks (payoutsWorld p)) = Inr goodConstants"
    and "snd (main (payoutsWorld p)) = Inr goodState"
  using assms
  by (simp_all add: script_defs environmentChecks_def required_def DEBUG_def goodWorld_def
      goodState_def goodConstants_def payoutsWorld_def)


text \<open>
  Claim C3, as the code has it. For every configured payouts-per-day value other than 0
  whose interval \<open>24 / payoutsPerDay\<close> lies outside the range from 1 to 24 (a value greater
  than 24, a positive value below 1, a negative value), the script, once the four required
  inputs are present, ends with the range error and exit status 1, and goes on neither to
  the connection nor to the scheduler. (A configured 0 is replaced by the default 2: see the
  counterexample below.)
\<close>

theorem interval_out_of_range_is_fatal:
  assumes "\<not> falsy (env_TREASURY_PRIVATE_KEY w)" "\<not> falsy (config_network (config w))"
    "\<not> falsy (env_PUSHGATEWAY w)" "\<not> falsy (env_DATABASE_URL w)"
    and "config_payoutsPerDay (config w) = Some p" and "p \<noteq> 0"
    and "24 / p < 1 \<or> 24 < 24 / p"
  shows "snd (main w) = Inl (Error ''paymentInterval must be between 1 and 24 hours.'')
     \<and> exitStatus (snd (main w)) = Some 1
     \<and> Connect \<notin> set (fst (main w)) \<and> (\<forall>x. CronSchedule x \<notin> set (fst (main w)))"
proof -
  have "paymentInterval (config w) = 24 / p"
    using assms(5,6) by (rule paymentInterval_configured)
  with assms have "snd (environmentChecks w) =
      Inl (Error ''paymentInterval must be between 1 and 24 hours.'')"
    by (simp add: environmentChecks_range)
  from main_quiet_on_failed_checks[OF this] show ?thesis by (simp add: exitStatus_def)
qed

theorem interval_out_of_range_is_fatal_witness:
  "config_payoutsPerDay (config (payoutsWorld (Some 25))) = Some 25
   \<and> (24 / 25 < (1::rat) \<or> (24::rat) < 24 / 25)
   \<and> snd (main (payoutsWorld (Some 25))) =
       Inl (Error ''paymentInterval must be between 1 and 24 hours.'')
   \<and> exitStatus (snd (main (payoutsWorld (Some 25)))) = Some 1
   \<and> Connect \<notin> set (fst (main (payoutsWorld (Some 25))))"
proof -
  have i: "\<not> falsy (env_TREASURY_PRIVATE_KEY (payoutsWorld (Some 25)))"
    "\<not> falsy (config_network (config (payoutsWorld (Some 25))))"
    "\<not> falsy (env_PUSHGATEWAY (payoutsWorld (Some 25)))"
    "\<not> falsy (env_DATABASE_URL (payoutsWorld (Some 25)))"
    by (simp_all add: falsy_def payoutsWorld_def goodWorld_def)
  have p: "config_payoutsPerDay (config (payoutsWorld (Some 25))) = Some 25"
    by (simp add: payoutsWorld_def)
  have z: "(25::rat) \<noteq> 0" by simp
  have r: "24 / 25 < (1::rat) \<or> (24::rat) < 24 / 25" by simp
  from interval_out_of_range_is_fatal[OF i p z r] p r show ?thesis by blast
qed

text \<open>The claim C3 as the spec states it fails for a configured 0: the default 2 takes its
  place, the interval is 12, and the script runs to its end.\<close>

theorem zero_payouts_per_day_is_not_fatal:
  "config_payoutsPerDay (config (payoutsWorld (Some 0))) = Some 0
   \<and> paymentInterval (config (payoutsWorld (Some 0))) = 12
   \<and> snd (main (payoutsWorld (Some 0))) = Inr goodState"
proof -
  have p: "config_payoutsPerDay (config (payoutsWorld (Some 0))) = Some 0"
    by (simp add: payoutsWorld_def)
  then have i: "paymentInterval (config (payoutsWorld (Some 0))) = 12"
    by (simp add: paymentInterval_default)
  then have "snd (main (payoutsWorld (Some 0))) = Inr goodState"
    by (simp add: main_payoutsWorld_in_range)
  with p i show ?thesis by simp
qed






subsection \<open>The heartbeat\<close>

lemma jsRemainder_14_12: "jsRemainder 14 12 = 2"
proof -
  have "\<lfloor>7 / 6 :: rat\<rfloor> = 1" by (simp add: floor_eq_iff)
  then show ?thesis by (simp add: jsRemainder_def)
qed

lemma jsRemainder_13_12: "jsRemainder 13 12 = 1"
proof -
  have "\<lfloor>13 / 12 :: rat\<rfloor> = 1" by (simp add: floor_eq_iff)
  then show ?thesis by (simp add: jsRemainder_def)
qed

lemma jsRemainder_12_12: "jsRemainder 12 12 = 0"
  by (simp add: jsRemainder_def)

lemma paymentInterval_debugWorld: "paymentInterval (config debugWorld) = 12"
  by (simp add: paymentInterval_def payoutsPerDay_def debugWorld_def goodWorld_def)

text \<open>
  Claim C6. With \<open>paymentInterval = 12\<close> (two payouts per day): at 14:05 the remaining time
  is 595 minutes, and at 12:00 it is 0, not 720. With debug output on, these are the numbers
  in the heartbeat's log line.
\<close>

theorem heartbeat_examples:
  "paymentInterval (config debugWorld) = 12
   \<and> remainingTime 12 14 5 = 595
   \<and> remainingTime 12 12 0 = 0
   \<and> remainingTime 12 12 0 \<noteq> 720
   \<and> heartbeat debugWorld 14 5 =
       [Debug [S ''Main: '', N 595, S '' minutes until the next balance transfer'']]
   \<and> heartbeat debugWorld 12 0 =
       [Debug [S ''Main: '', N 0, S '' minutes until the next balance transfer'']]"
proof -
  have a: "remainingTime 12 14 5 = 595"
    by (simp add: remainingTime_def jsRemainder_14_12)
  have b: "remainingTime 12 12 0 = 0"
    by (simp add: remainingTime_def jsRemainder_12_12)
  have d: "DEBUG debugWorld" by (simp add: DEBUG_def debugWorld_def)
  from a b d show ?thesis
    by (simp add: heartbeat_def debug_def paymentInterval_debugWorld)
qed

theorem heartbeat_examples_witness:
  "remainingTime 12 14 5 = 595 \<and> remainingTime 12 12 0 = 0"
  using heartbeat_examples by blast

text \<open>
  Claim C9. At every wall-clock time whose minutes are 0 the heartbeat reports 0 remaining
  minutes, whatever the hour and the interval: the value computed is 0, and with debug
  output on the line logged carries 0 (with debug output off the heartbeat logs nothing).
  The test compares \<open>remainingMinutes\<close> with \<open>nextTransferHours * 60\<close>, and the two differ by
  the minutes; so with interval 12 at 13:00 the report is 0, where \<open>nextTransferHours * 60\<close>
  is 660, and with minutes other than 0 the value is \<open>nextTransferHours * 60 - minutes\<close>.
\<close>

theorem heartbeat_zero_at_every_full_hour:
  "remainingTime (paymentInterval (config w)) hours 0 = 0
   \<and> (DEBUG w \<longrightarrow>
        heartbeat w hours 0 =
          [Debug [S ''Main: '', N 0, S '' minutes until the next balance transfer'']])
   \<and> (\<not> DEBUG w \<longrightarrow> heartbeat w hours minutes = [])
   \<and> (0 < minutes \<longrightarrow>
        remainingTime (paymentInterval (config w)) hours minutes =
          (paymentInterval (config w)
             - jsRemainder (of_nat hours) (paymentInterval (config w))) * 60
          - of_nat minutes)
   \<and> remainingTime 12 13 0 = 0
   \<and> heartbeat debugWorld 13 0 =
       [Debug [S ''Main: '', N 0, S '' minutes until the next balance transfer'']]
   \<and> (12 - jsRemainder 13 12) * 60 = 660"
proof -
  have z: "remainingTime interval h 0 = 0" for interval h
    by (simp add: remainingTime_def Let_def)
  have d: "DEBUG debugWorld" by (simp add: DEBUG_def debugWorld_def)
  have m: "0 < minutes \<longrightarrow>
        remainingTime (paymentInterval (config w)) hours minutes =
          (paymentInterval (config w)
             - jsRemainder (of_nat hours) (paymentInterval (config w))) * 60
          - of_nat minutes"
    by (simp add: remainingTime_def Let_def)
  have s: "(12 - jsRemainder 13 12) * 60 = 660" by (simp add: jsRemainder_13_12)
  from z[of "paymentInterval (config w)" hours] z[of 12 13] m s
  show ?thesis by (simp add: heartbeat_def debug_def z d)
qed

theorem heartbeat_zero_at_every_full_hour_witness:
  "DEBUG debugWorld
   \<and> heartbeat debugWorld 7 0 =
       [Debug [S ''Main: '', N 0, S '' minutes until the next balance transfer'']]
   \<and> remainingTime (paymentInterval (config debugWorld)) 13 0 = 0
   \<and> \<not> DEBUG goodWorld
   \<and> heartbeat goodWorld 7 30 = []
   \<and> remainingTime (paymentInterval (config debugWorld)) 13 30 =
       (paymentInterval (config debugWorld)
          - jsRemainder (of_nat 13) (paymentInterval (config debugWorld))) * 60 - of_nat 30"
proof -
  have d: "DEBUG debugWorld" by (simp add: DEBUG_def debugWorld_def)
  have g: "\<not> DEBUG goodWorld" by (simp add: DEBUG_def goodWorld_def)
  have m: "(0::nat) < 30" by simp
  from d g m heartbeat_zero_at_every_full_hour[of debugWorld 7 30]
    heartbeat_zero_at_every_full_hour[of debugWorld 13 30]
    heartbeat_zero_at_every_full_hour[of goodWorld 7 30]
  show ?thesis by blast
qed

subsection \<open>The schedule of the cron expression\<close>

lemma render_cronExpression:
  assumes "n \<le> 24"
  shows "render (cronExpression (of_nat n)) = Some (''0 */'' @ digits n @ '' * * *'')"
proof -
  from assms have "(of_nat n :: rat) \<le> of_nat 24" by (simp only: of_nat_le_iff)
  then have "\<not> 1000000000000000000000 \<le> (of_nat n :: rat)" by simp
  then show ?thesis by (simp add: cronExpression_def showNumber_def)
qed

lemma digit_chars:
  assumes "d < 10"
  shows "digitValue (''0123456789'' ! d) = Some d" and "''0123456789'' ! d \<noteq> CHR '' ''"
proof -
  from assms have "d \<in> {0, 1, 2, 3, 4, 5, 6, 7, 8, 9}" by auto
  then show "digitValue (''0123456789'' ! d) = Some d" and "''0123456789'' ! d \<noteq> CHR '' ''"
    by (auto simp: digitValue_def)
qed

lemma parseDigits_append:
  "parseDigits acc (xs @ ys) =
     (case parseDigits acc xs of None \<Rightarrow> None | Some a \<Rightarrow> parseDigits a ys)"
  by (induction xs arbitrary: acc) (auto split: option.splits)

text \<open>Reading the digits of a number gives the number back.\<close>

lemma parseDigits_digits: "parseDigits 0 (digits n) = Some n"
proof (induction n rule: digits.induct)
  case (1 n)
  show ?case
  proof (cases "n < 10")
    case True
    then show ?thesis by (subst digits.simps) (simp add: digit_chars)
  next
    case False
    with 1 have "parseDigits 0 (digits (n div 10)) = Some (n div 10)" by simp
    with False show ?thesis
      by (subst digits.simps) (simp add: parseDigits_append digit_chars)
  qed
qed

lemma digits_not_Nil: "digits n \<noteq> []"
  by (subst digits.simps) simp

lemma digits_no_space: "CHR '' '' \<notin> set (digits n)"
proof (induction n rule: digits.induct)
  case (1 n)
  show ?case
  proof (cases "n < 10")
    case True
    then show ?thesis using digit_chars(2)[of n] by (subst digits.simps) simp
  next
    case False
    with 1 digit_chars(2)[of "n mod 10"] show ?thesis by (subst digits.simps) simp
  qed
qed

lemma splitFields_field:
  "CHR '' '' \<notin> set xs \<Longrightarrow> splitFields (xs @ CHR '' '' # ys) = xs # splitFields ys"
  by (induction xs) auto

lemma splitFields_cronExpression:
  "splitFields (''0 */'' @ digits n @ '' * * *'') =
     [''0'', ''*/'' @ digits n, ''*'', ''*'', ''*'']"
proof -
  have "splitFields ((''*/'' @ digits n) @ CHR '' '' # ''* * *'')
          = (''*/'' @ digits n) # splitFields ''* * *''"
    by (rule splitFields_field) (simp add: digits_no_space)
  then show ?thesis by simp
qed

lemma parse_cronExpression:
  assumes "1 \<le> n"
  shows "map parseField (splitFields (''0 */'' @ digits n @ '' * * *''))
           = [Some (Exactly 0), Some (Every n), Some Any, Some Any, Some Any]"
  unfolding splitFields_cronExpression using assms
  by (simp add: parseNat_def digits_not_Nil parseDigits_digits digitValue_def)

lemma cronFires_whole_interval:
  assumes "1 \<le> n" "n \<le> 24"
  shows "cronFires (cronExpression (of_nat n)) c = Some (minute c = 0 \<and> hour c mod n = 0)"
  unfolding cronFires_def render_cronExpression[OF assms(2)] option.case
    parse_cronExpression[OF assms(1)]
  by simp

text \<open>Five payouts per day: the interval 24/5 is printed as 4.8, and the hour field
  \<open>*/4.8\<close> is not a step.\<close>

lemma render_cronExpression_24_5: "render (cronExpression (24 / 5)) = Some ''0 */4.8 * * *''"
proof -
  have f: "\<lfloor>24 / 5 :: rat\<rfloor> = 4" by (simp add: floor_eq_iff)
  have d: "digits 4 = ''4''" by (simp add: digits.simps)
  have "fractionDigits 13 (4 / 5) = Some ''8''"
    by (simp add: eval_nat_numeral)
  then have "showNumber (24 / 5) = Some ''4.8''"
    by (simp add: showNumber_def f d)
  then show ?thesis by (simp add: cronExpression_def)
qed

lemma cronFires_24_5:
  "cronFires (cronExpression (24 / 5)) c = Some (minute c = 0)"
  unfolding cronFires_def render_cronExpression_24_5 option.case
  by (simp add: parseNat_def digitValue_def)

text \<open>
  Claim C8, as the code has it. For every \<open>paymentInterval\<close> that is a whole number of
  hours (from 1 to 24, as the range check has it), the expression given to the scheduler
  fires exactly at the top of every hour that is a multiple of the interval: at minute 0 of
  the hours divisible by the interval, on every day, and at no other time. With two payouts
  per day the interval is 12, the expression is \<open>0 */12 * * *\<close>, and it fires at 0:00 and at
  12:00 and at no other time of the day.
\<close>

theorem scheduler_fires_on_multiples_of_interval:
  "(1 \<le> n \<and> n \<le> 24 \<longrightarrow>
      cronFires (cronExpression (of_nat n)) c = Some (minute c = 0 \<and> n dvd hour c))
   \<and> paymentInterval (config goodWorld) = 12
   \<and> CronSchedule (cronExpression 12) \<in> set (fst (main goodWorld))
   \<and> render (cronExpression 12) = Some ''0 */12 * * *''
   \<and> (hour c < 24 \<longrightarrow>
        cronFires (cronExpression 12) c = Some (minute c = 0 \<and> (hour c = 0 \<or> hour c = 12)))"
proof (intro conjI impI)
  assume "1 \<le> n \<and> n \<le> 24"
  then show "cronFires (cronExpression (of_nat n)) c = Some (minute c = 0 \<and> n dvd hour c)"
    by (simp add: cronFires_whole_interval dvd_eq_mod_eq_0)
next
  show "paymentInterval (config goodWorld) = 12"
    by (simp add: paymentInterval_def payoutsPerDay_def goodWorld_def)
next
  show "CronSchedule (cronExpression 12) \<in> set (fst (main goodWorld))"
    by (simp add: main_goodWorld cronExpression_def)
next
  have "digits 12 = ''12''" by (simp add: digits.simps)
  with render_cronExpression[of 12] show "render (cronExpression 12) = Some ''0 */12 * * *''"
    by simp
next
  assume h: "hour c < 24"
  have "hour c mod 12 = 0 \<longleftrightarrow> hour c = 0 \<or> hour c = 12"
    using h by presburger
  with cronFires_whole_interval[of 12 c]
  show "cronFires (cronExpression 12) c = Some (minute c = 0 \<and> (hour c = 0 \<or> hour c = 12))"
    by simp
qed

theorem scheduler_fires_on_multiples_of_interval_witness:
  "(1::nat) \<le> 6 \<and> (6::nat) \<le> 24
   \<and> cronFires (cronExpression (of_nat 6))
        \<lparr>minute = 0, hour = 18, dayOfMonth = 3, month = 11, dayOfWeek = 2\<rparr> = Some True
   \<and> cronFires (cronExpression 12)
        \<lparr>minute = 0, hour = 12, dayOfMonth = 3, month = 11, dayOfWeek = 2\<rparr> = Some True
   \<and> cronFires (cronExpression 12)
        \<lparr>minute = 0, hour = 13, dayOfMonth = 3, month = 11, dayOfWeek = 2\<rparr> = Some False
   \<and> cronFires (cronExpression 12)
        \<lparr>minute = 5, hour = 12, dayOfMonth = 3, month = 11, dayOfWeek = 2\<rparr> = Some False"
proof -
  have n: "(1::nat) \<le> 6 \<and> (6::nat) \<le> 24" by simp
  have h: "hour \<lparr>minute = 0, hour = 12, dayOfMonth = 3, month = 11, dayOfWeek = 2\<rparr> < 24"
    "hour \<lparr>minute = 0, hour = 13, dayOfMonth = 3, month = 11, dayOfWeek = 2\<rparr> < 24"
    "hour \<lparr>minute = 5, hour = 12, dayOfMonth = 3, month = 11, dayOfWeek = 2\<rparr> < 24"
    by simp_all
  from n h
    scheduler_fires_on_multiples_of_interval
      [of 6 "\<lparr>minute = 0, hour = 18, dayOfMonth = 3, month = 11, dayOfWeek = 2\<rparr>"]
    scheduler_fires_on_multiples_of_interval
      [of 6 "\<lparr>minute = 0, hour = 12, dayOfMonth = 3, month = 11, dayOfWeek = 2\<rparr>"]
    scheduler_fires_on_multiples_of_interval
      [of 6 "\<lparr>minute = 0, hour = 13, dayOfMonth = 3, month = 11, dayOfWeek = 2\<rparr>"]
    scheduler_fires_on_multiples_of_interval
      [of 6 "\<lparr>minute = 5, hour = 12, dayOfMonth = 3, month = 11, dayOfWeek = 2\<rparr>"]
  show ?thesis by simp
qed

text \<open>The claim C8 as the spec states it fails for an interval that is not a whole number.
  With 5 payouts per day the script runs to its end and registers \<open>0 */4.8 * * *\<close>; this
  fires at 1:00, and hour 1 is not a multiple of 4.8.\<close>

theorem fractional_interval_fires_off_multiples:
  "config_payoutsPerDay (config (payoutsWorld (Some 5))) = Some 5
   \<and> paymentInterval (config (payoutsWorld (Some 5))) = 24 / 5
   \<and> snd (main (payoutsWorld (Some 5))) = Inr goodState
   \<and> CronSchedule (cronExpression (24 / 5)) \<in> set (fst (main (payoutsWorld (Some 5))))
   \<and> render (cronExpression (24 / 5)) = Some ''0 */4.8 * * *''
   \<and> cronFires (cronExpression (24 / 5))
        \<lparr>minute = 0, hour = 1, dayOfMonth = 3, month = 11, dayOfWeek = 2\<rparr> = Some True
   \<and> of_nat (hour \<lparr>minute = 0, hour = 1, dayOfMonth = 3, month = 11, dayOfWeek = 2\<rparr>)
        / (24 / 5 :: rat) \<notin> \<int>"
proof -
  have p: "config_payoutsPerDay (config (payoutsWorld (Some 5))) = Some 5"
    by (simp add: payoutsWorld_def)
  then have i: "paymentInterval (config (payoutsWorld (Some 5))) = 24 / 5"
    by (simp add: paymentInterval_configured)
  then have m: "snd (main (payoutsWorld (Some 5))) = Inr goodState"
    by (simp add: main_payoutsWorld_in_range)
  have t: "CronSchedule (cronExpression (24 / 5)) \<in> set (fst (main (payoutsWorld (Some 5))))"
    by (simp add: run_defs payoutsWorld_def)
  have f: "cronFires (cronExpression (24 / 5))
        \<lparr>minute = 0, hour = 1, dayOfMonth = 3, month = 11, dayOfWeek = 2\<rparr> = Some True"
    by (simp add: cronFires_24_5)
  have n: "(5 / 24 :: rat) \<notin> \<int>"
  proof
    assume "(5 / 24 :: rat) \<in> \<int>"
    then obtain z :: int where "(5 / 24 :: rat) = of_int z" by (auto elim: Ints_cases)
    then have "(of_int 5 :: rat) = of_int (24 * z)" by simp
    then have "5 = 24 * z" by (simp only: of_int_eq_iff)
    then show False by presburger
  qed
  then have w: "of_nat (hour \<lparr>minute = 0, hour = 1, dayOfMonth = 3, month = 11, dayOfWeek = 2\<rparr>)
        / (24 / 5 :: rat) \<notin> \<int>"
    by simp
  from p i m t render_cronExpression_24_5 f w show ?thesis by (intro conjI)
qed

end
